theory Spec2Isabelle
  imports
    Main
    "HOL-Library.Char_ord"
    "HOL-Library.List_Lexorder"
    "HOL-Library.Product_Lexorder"
    "HOL-Library.Sublist"
begin

section \<open>Python values used by app.py\<close>

text \<open>
  Strings are byte strings restricted to ASCII text; they are compared as Python compares
  \<open>str\<close> values, character by character with a proper prefix first
  (\<open>List_Lexorder\<close> over \<open>Char_ord\<close>).

  An exception that the source can raise is a value; the string it carries is what
  \<open>str(e)\<close> returns, which is all the handlers of app.py read.
\<close>

datatype py_exception =
    ValueError string
  | TypeError string
  | OverflowError string
  | IndexError string
  | KeyError string

fun exception_str :: "py_exception \<Rightarrow> string" where
  "exception_str (ValueError m) = m"
| "exception_str (TypeError m) = m"
| "exception_str (OverflowError m) = m"
| "exception_str (IndexError m) = m"
| "exception_str (KeyError k) = [CHR 0x27] @ k @ [CHR 0x27]"

text \<open>
  A Python float is a double: a finite value \<open>m * 2 ^ e\<close>, an infinity or a NaN.
\<close>

datatype pyfloat = Finite int int | PosInf | NegInf | NaN

text \<open>
  A cell of the \<open>author_position\<close> column as \<open>pd.read_csv\<close> delivers it: the
  column has no declared dtype, so a cell is an integer, a float (a numeric column with
  a missing cell is a float column, the missing cell being NaN), a boolean, a string,
  or missing.
\<close>

datatype cell = CNone | CInt int | CFloat pyfloat | CBool bool | CStr string

subsection \<open>String helpers\<close>

definition str_isspace :: "char \<Rightarrow> bool" where
  \<comment> \<open>\<open>str.isspace\<close> on an ASCII character: TAB..CR, FS..US and the blank.\<close>
  "str_isspace c = (let n = (of_char c :: nat) in (9 \<le> n \<and> n \<le> 13) \<or> (28 \<le> n \<and> n \<le> 32))"

definition c_isspace :: "char \<Rightarrow> bool" where
  \<comment> \<open>the white space \<open>int()\<close> skips around an ASCII numeral: TAB..CR and the blank.\<close>
  "c_isspace c = (let n = (of_char c :: nat) in (9 \<le> n \<and> n \<le> 13) \<or> n = 32)"

definition strip_with :: "(char \<Rightarrow> bool) \<Rightarrow> string \<Rightarrow> string" where
  "strip_with sp s = rev (dropWhile sp (rev (dropWhile sp s)))"

definition strip :: "string \<Rightarrow> string" where
  \<comment> \<open>\<open>s.strip()\<close>\<close>
  "strip s = strip_with str_isspace s"

definition lower_char :: "char \<Rightarrow> char" where
  "lower_char c = (let n = (of_char c :: nat) in if 65 \<le> n \<and> n \<le> 90 then char_of (n + 32) else c)"

definition lower :: "string \<Rightarrow> string" where
  \<comment> \<open>\<open>s.lower()\<close>\<close>
  "lower s = map lower_char s"

definition is_digit :: "char \<Rightarrow> bool" where
  "is_digit c = (let n = (of_char c :: nat) in 48 \<le> n \<and> n \<le> 57)"

definition digit_value :: "char \<Rightarrow> nat" where
  "digit_value c = of_char c - 48"

text \<open>
  The digits of a decimal numeral as \<open>int()\<close> accepts them: at least one digit, single
  underscores allowed between digits only. The flag says that a digit must come next.
  A numeral with more digits than the interpreter's limit raises \<open>ValueError\<close> like any
  text that is not a numeral.
\<close>

fun py_digits :: "bool \<Rightarrow> nat \<Rightarrow> string \<Rightarrow> nat option" where
  "py_digits need acc [] = (if need then None else Some acc)"
| "py_digits need acc (c # cs) =
     (if is_digit c then py_digits False (acc * 10 + digit_value c) cs
      else if c = CHR ''_'' \<and> \<not> need then py_digits True acc cs
      else None)"

definition max_str_digits :: nat where
  \<comment> \<open>the interpreter's default limit on the digits of a numeral that \<open>int()\<close> converts\<close>
  "max_str_digits = 4300"

definition py_numeral :: "string \<Rightarrow> nat option" where
  \<comment> \<open>the digits of a numeral within the limit; a longer numeral raises \<open>ValueError\<close>\<close>
  "py_numeral cs =
     (if length (filter is_digit cs) > max_str_digits then None else py_digits True 0 cs)"

definition int_of_string :: "string \<Rightarrow> int option" where
  \<comment> \<open>\<open>int(s)\<close> for a string: surrounding white space, an optional sign, the digits;
      \<open>None\<close> stands for the \<open>ValueError\<close> of anything else.\<close>
  "int_of_string s =
     (case strip_with c_isspace s of
        [] \<Rightarrow> None
      | c # cs \<Rightarrow>
          if c = CHR ''-'' then map_option (\<lambda>n. - int n) (py_numeral cs)
          else if c = CHR ''+'' then map_option int (py_numeral cs)
          else map_option int (py_numeral (c # cs)))"

definition int_of_float :: "pyfloat \<Rightarrow> py_exception + int" where
  \<comment> \<open>\<open>int(x)\<close> for a float: truncation towards zero; no integer for an infinity or a NaN.\<close>
  "int_of_float x =
     (case x of
        Finite m e \<Rightarrow>
          Inr (if 0 \<le> e then m * 2 ^ nat e
               else if 0 \<le> m then m div 2 ^ nat (- e)
               else - ((- m) div 2 ^ nat (- e)))
      | PosInf \<Rightarrow> Inl (OverflowError ''cannot convert float infinity to integer'')
      | NegInf \<Rightarrow> Inl (OverflowError ''cannot convert float infinity to integer'')
      | NaN \<Rightarrow> Inl (ValueError ''cannot convert float NaN to integer''))"

definition pd_isna :: "cell \<Rightarrow> bool" where
  \<comment> \<open>\<open>pd.isna(position)\<close> on a scalar\<close>
  "pd_isna position = (case position of CNone \<Rightarrow> True | CFloat NaN \<Rightarrow> True | _ \<Rightarrow> False)"

definition py_int :: "cell \<Rightarrow> py_exception + int" where
  \<comment> \<open>\<open>int(position)\<close>\<close>
  "py_int position =
     (case position of
        CInt n \<Rightarrow> Inr n
      | CBool b \<Rightarrow> Inr (if b then 1 else 0)
      | CFloat x \<Rightarrow> int_of_float x
      | CStr s \<Rightarrow>
          (case int_of_string s of
             Some n \<Rightarrow> Inr n
           | None \<Rightarrow> Inl (ValueError (''invalid literal for int() with base 10: '' @ s)))
      | CNone \<Rightarrow> Inl (TypeError ''int() argument must be a string, a bytes-like object or a real number, not NoneType''))"

section \<open>clean_author_position (app.py, lines 34-55)\<close>

definition role_value :: "string \<Rightarrow> int option" where
  \<comment> \<open>the \<open>if\<close>/\<open>elif\<close>/\<open>else\<close> of the handler, on \<open>position_str\<close>\<close>
  "role_value position_str =
     (if position_str \<in> set [''middle'', ''mid''] then Some 2
      else if position_str \<in> set [''last'', ''corresponding'', ''corr''] then Some (- 1)
      else None)"

definition is_caught :: "py_exception \<Rightarrow> bool" where
  \<comment> \<open>\<open>except (ValueError, TypeError)\<close>\<close>
  "is_caught e = (case e of ValueError _ \<Rightarrow> True | TypeError _ \<Rightarrow> True | _ \<Rightarrow> False)"

text \<open>
  The handler reads \<open>str(position).strip().lower()\<close>. For a string cell \<open>str\<close> is the
  identity; the text of a missing cell, a boolean, an integer or a float is never one of
  the five role words, so the handler returns \<open>None\<close> on it.
\<close>

definition clean_author_position :: "cell \<Rightarrow> py_exception + int option" where
  "clean_author_position position =
     (if pd_isna position then Inr None
      else
        (case py_int position of
           Inr n \<Rightarrow> Inr (Some n)
         | Inl e \<Rightarrow>
             if is_caught e then
               (case position of
                  CStr s \<Rightarrow> Inr (role_value (lower (strip s)))
                | _ \<Rightarrow> Inr None)
             else Inl e))"

section \<open>Data frames\<close>

text \<open>
  A data frame is the list of its rows, in file order. Reading a table is outside the
  program: a builder is given \<open>os.path.exists\<close> and \<open>pd.read_csv\<close> as functions of the
  path, the latter returning the rows or the exception it raises. The rows have the
  columns the builder names; a table that cannot be read with the declared dtypes, or
  that lacks a column, fails inside the \<open>try\<close> block before any row is used and is the
  case of an exception. A cell is \<open>None\<close> when pandas reads it as missing. Years are
  Python integers once \<open>int()\<close> has been applied, so no arithmetic on them wraps.
\<close>

definition unique :: "'a list \<Rightarrow> 'a list" where
  \<comment> \<open>\<open>Series.unique()\<close>: the distinct values in order of first appearance\<close>
  "unique xs = rev (remdups (rev xs))"

definition groupby_size :: "'k::linorder list \<Rightarrow> ('k \<times> nat) list" where
  \<comment> \<open>\<open>groupby(keys).size()\<close>: one row per distinct key, keys sorted, with its number of rows\<close>
  "groupby_size ks = map (\<lambda>k. (k, count_list ks k)) (sort (remdups ks))"

definition iloc0 :: "'a list \<Rightarrow> py_exception + 'a" where
  \<comment> \<open>\<open>.iloc[0]\<close>\<close>
  "iloc0 xs =
     (case xs of
        [] \<Rightarrow> Inl (IndexError ''single positional indexer is out-of-bounds'')
      | x # _ \<Rightarrow> Inr x)"

definition path_join :: "string \<Rightarrow> string \<Rightarrow> string" where
  \<comment> \<open>\<open>CURRENT_DIR / file\<close>, printed; \<open>CURRENT_DIR\<close> is a resolved directory\<close>
  "path_join dir file = (if dir = ''/'' then dir @ file else dir @ ''/'' @ file)"

subsection \<open>Results\<close>

record node =
  node_id :: string
  name :: string

record link =
  source :: string
  target :: string
  link_value :: int

record ('n, 'l) result =
  error :: "string option"
  nodes :: "'n list"
  links :: "'l list"

definition error_result :: "string \<Rightarrow> ('n, 'l) result" where
  \<comment> \<open>\<open>{"error": msg, "nodes": [], "links": []}\<close>\<close>
  "error_result msg = \<lparr>error = Some msg, nodes = [], links = []\<rparr>"

definition graph_result :: "'n list \<Rightarrow> 'l list \<Rightarrow> ('n, 'l) result" where
  \<comment> \<open>\<open>{"nodes": nodes, "links": links}\<close>\<close>
  "graph_result ns ls = \<lparr>error = None, nodes = ns, links = ls\<rparr>"

section \<open>generate_citation_network (app.py, lines 59-142)\<close>

record csv_citation =
  citing_paperid_cell :: "string option"
  cited_paperid_cell :: "string option"
  year_cell :: "int option"
  ref_year_cell :: "int option"

text \<open>A row of \<open>df_clean\<close>: after \<open>dropna\<close> the four fields are present.\<close>

record citation =
  citing_paperid :: string
  cited_paperid :: string
  year :: int
  ref_year :: int

definition dropna_citation :: "csv_citation \<Rightarrow> citation option" where
  "dropna_citation r =
     (case (citing_paperid_cell r, cited_paperid_cell r, year_cell r, ref_year_cell r) of
        (Some citing, Some cited, Some y, Some ry) \<Rightarrow>
          Some \<lparr>citing_paperid = citing, cited_paperid = cited, year = y, ref_year = ry\<rparr>
      | _ \<Rightarrow> None)"

definition clean_citations :: "csv_citation list \<Rightarrow> citation list" where
  \<comment> \<open>lines 78-79: the retained records\<close>
  "clean_citations df =
     filter (\<lambda>r. 2020 \<le> year r \<and> year r \<le> 2025) (List.map_filter dropna_citation df)"

datatype publish_year = Year int | Unknown

record paper_node = node +
  publish_year :: publish_year
  citation_count :: int
  institution :: string

record citation_link = link +
  citing_year :: int
  cited_year :: int
  year_diff :: int

definition all_paper_ids :: "citation list \<Rightarrow> string list" where
  \<comment> \<open>line 82\<close>
  "all_paper_ids df_clean = unique (map citing_paperid df_clean @ map cited_paperid df_clean)"

definition publish_year_of :: "citation list \<Rightarrow> citation list \<Rightarrow> publish_year" where
  \<comment> \<open>lines 90-95\<close>
  "publish_year_of citing_records cited_records =
     (case citing_records of
        r # _ \<Rightarrow> Year (year r)
      | [] \<Rightarrow> (case cited_records of r # _ \<Rightarrow> Year (ref_year r) | [] \<Rightarrow> Unknown))"

definition citation_node :: "citation list \<Rightarrow> string \<Rightarrow> paper_node" where
  \<comment> \<open>the body of the loop of lines 85-106\<close>
  "citation_node df_clean paper_id =
     (let citing_records = filter (\<lambda>r. citing_paperid r = paper_id) df_clean;
          cited_records = filter (\<lambda>r. cited_paperid r = paper_id) df_clean
      in \<lparr>node_id = paper_id,
          name = ''Paper_'' @ paper_id,
          publish_year = publish_year_of citing_records cited_records,
          citation_count = int (length cited_records),
          institution = ''Yeshiva University, Computer Science Department''\<rparr>)"

definition citation_nodes :: "citation list \<Rightarrow> paper_node list" where
  "citation_nodes df_clean = map (citation_node df_clean) (all_paper_ids df_clean)"

definition link_groups :: "citation list \<Rightarrow> ((string \<times> string) \<times> nat) list" where
  \<comment> \<open>line 109\<close>
  "link_groups df_clean = groupby_size (map (\<lambda>r. (cited_paperid r, citing_paperid r)) df_clean)"

text \<open>
  The loop of lines 112-128 (and of lines 297-313, the same statements): a group whose
  endpoints are not both node ids is skipped; \<open>.iloc[0]\<close> on an empty selection raises
  and ends the loop.
\<close>

fun citation_links ::
  "citation list \<Rightarrow> string list \<Rightarrow> ((string \<times> string) \<times> nat) list \<Rightarrow> py_exception + citation_link list"
where
  "citation_links df_clean ids [] = Inr []"
| "citation_links df_clean ids (((cited_id, citing_id), cite_times) # rest) =
     (if cited_id \<in> set ids \<and> citing_id \<in> set ids then
        (case iloc0 (map year (filter (\<lambda>r. citing_paperid r = citing_id) df_clean)) of
           Inl e \<Rightarrow> Inl e
         | Inr citing_y \<Rightarrow>
             (case iloc0 (map ref_year (filter (\<lambda>r. cited_paperid r = cited_id) df_clean)) of
                Inl e \<Rightarrow> Inl e
              | Inr cited_y \<Rightarrow>
                  (case citation_links df_clean ids rest of
                     Inl e \<Rightarrow> Inl e
                   | Inr ls \<Rightarrow>
                       Inr (\<lparr>source = cited_id, target = citing_id, link_value = int cite_times,
                             citing_year = citing_y, cited_year = cited_y,
                             year_diff = citing_y - cited_y\<rparr> # ls))))
      else citation_links df_clean ids rest)"

definition citation_not_found :: "string \<Rightarrow> string" where
  "citation_not_found csv_path =
     ''The CSV file for the citation network could not be found. Please check the path: '' @ csv_path"

definition processing_failed :: "py_exception \<Rightarrow> string" where
  "processing_failed e = ''Data processing failed: '' @ exception_str e"

definition generate_citation_network ::
  "string \<Rightarrow> (string \<Rightarrow> bool) \<Rightarrow> (string \<Rightarrow> py_exception + csv_citation list)
     \<Rightarrow> (paper_node, citation_link) result"
where
  "generate_citation_network CURRENT_DIR path_exists read_csv =
     (let csv_path = path_join CURRENT_DIR ''refs_yeshiva_cs_20_25.csv'' in
      if \<not> path_exists csv_path then error_result (citation_not_found csv_path)
      else
        (case read_csv csv_path of
           Inl e \<Rightarrow> error_result (processing_failed e)
         | Inr df \<Rightarrow>
             (let df_clean = clean_citations df;
                  node_list = citation_nodes df_clean
              in case citation_links df_clean (map node_id node_list) (link_groups df_clean) of
                   Inl e \<Rightarrow> error_result (processing_failed e)
                 | Inr link_list \<Rightarrow> graph_result node_list link_list)))"

section \<open>generate_enhanced_citation_network (app.py, lines 242-327)\<close>

text \<open>
  The arithmetic of doubles is a parameter: the conversion of an integer, the product,
  the sum, and the two literals \<open>0.8\<close> and \<open>2.0\<close>.
\<close>

record float_ops =
  float_of_int :: "int \<Rightarrow> pyfloat"
  float_mul :: "pyfloat \<Rightarrow> pyfloat \<Rightarrow> pyfloat"
  float_add :: "pyfloat \<Rightarrow> pyfloat \<Rightarrow> pyfloat"
  lit_0_8 :: pyfloat
  lit_2_0 :: pyfloat

definition impact_score_of :: "float_ops \<Rightarrow> int \<Rightarrow> pyfloat" where
  \<comment> \<open>line 282: \<open>citation_count * 0.8 + 2.0\<close>\<close>
  "impact_score_of fl count =
     float_add fl (float_mul fl (float_of_int fl count) (lit_0_8 fl)) (lit_2_0 fl)"

record enhanced_node = paper_node +
  topic :: string
  impact_score :: pyfloat

definition enhanced_node :: "float_ops \<Rightarrow> citation list \<Rightarrow> string \<Rightarrow> enhanced_node" where
  \<comment> \<open>the body of the loop of lines 268-291\<close>
  "enhanced_node fl df_clean paper_id =
     (let citing_records = filter (\<lambda>r. citing_paperid r = paper_id) df_clean;
          cited_records = filter (\<lambda>r. cited_paperid r = paper_id) df_clean;
          count = int (length cited_records)
      in \<lparr>node_id = paper_id,
          name = ''Paper_'' @ paper_id,
          publish_year = publish_year_of citing_records cited_records,
          citation_count = count,
          institution = ''Yeshiva University, Computer Science Department'',
          topic = ''Computer Science'',
          impact_score = impact_score_of fl count\<rparr>)"

definition enhanced_nodes :: "float_ops \<Rightarrow> citation list \<Rightarrow> enhanced_node list" where
  "enhanced_nodes fl df_clean = map (enhanced_node fl df_clean) (all_paper_ids df_clean)"

definition generate_enhanced_citation_network ::
  "float_ops \<Rightarrow> string \<Rightarrow> (string \<Rightarrow> bool) \<Rightarrow> (string \<Rightarrow> py_exception + csv_citation list)
     \<Rightarrow> (enhanced_node, citation_link) result"
where
  "generate_enhanced_citation_network fl CURRENT_DIR path_exists read_csv =
     (let csv_path = path_join CURRENT_DIR ''refs_yeshiva_cs_20_25.csv'' in
      if \<not> path_exists csv_path then error_result (citation_not_found csv_path)
      else
        (case read_csv csv_path of
           Inl e \<Rightarrow> error_result (processing_failed e)
         | Inr df \<Rightarrow>
             (let df_clean = clean_citations df;
                  node_list = enhanced_nodes fl df_clean
              in case citation_links df_clean (map node_id node_list) (link_groups df_clean) of
                   Inl e \<Rightarrow> error_result (processing_failed e)
                 | Inr link_list \<Rightarrow> graph_result node_list link_list)))"

section \<open>generate_collaboration_network (app.py, lines 145-241)\<close>

record csv_affiliation =
  paperid_cell :: "string option"
  authorid_cell :: "string option"
  institutionid_cell :: "string option"
  author_position :: cell

text \<open>
  A row of \<open>df_clean\<close>: after \<open>dropna\<close> the paper, the author and the cleaned position
  are present.
\<close>

record affiliation =
  paperid :: string
  authorid :: string
  institutionid :: "string option"
  author_position_clean :: int

definition sample_size :: nat where
  "sample_size = 1000"

definition sample_papers :: "csv_affiliation list \<Rightarrow> csv_affiliation list" where
  \<comment> \<open>lines 163-166\<close>
  "sample_papers affils_df =
     (if length affils_df > sample_size then
        (let unique_papers = take sample_size (unique (map paperid_cell affils_df))
         in filter (\<lambda>r. paperid_cell r \<in> set unique_papers) affils_df)
      else affils_df)"

text \<open>
  Line 170: \<open>apply\<close> calls \<open>clean_author_position\<close> on the cells in row order; the first
  exception ends it.
\<close>

fun apply_clean_author_position ::
  "csv_affiliation list \<Rightarrow> py_exception + (csv_affiliation \<times> int option) list"
where
  "apply_clean_author_position [] = Inr []"
| "apply_clean_author_position (r # rest) =
     (case clean_author_position (author_position r) of
        Inl e \<Rightarrow> Inl e
      | Inr p \<Rightarrow>
          (case apply_clean_author_position rest of
             Inl e \<Rightarrow> Inl e
           | Inr ps \<Rightarrow> Inr ((r, p) # ps)))"

definition dropna_affiliation :: "csv_affiliation \<times> int option \<Rightarrow> affiliation option" where
  \<comment> \<open>line 171\<close>
  "dropna_affiliation rp =
     (case (paperid_cell (fst rp), authorid_cell (fst rp), snd rp) of
        (Some pid, Some aid, Some pos) \<Rightarrow>
          Some \<lparr>paperid = pid, authorid = aid, institutionid = institutionid_cell (fst rp),
                author_position_clean = pos\<rparr>
      | _ \<Rightarrow> None)"

definition clean_affiliations :: "(csv_affiliation \<times> int option) list \<Rightarrow> affiliation list" where
  \<comment> \<open>lines 171-175\<close>
  "clean_affiliations df =
     filter (\<lambda>r. strip (paperid r) \<noteq> [] \<and> strip (authorid r) \<noteq> [])
       (List.map_filter dropna_affiliation df)"

definition groupby_nunique :: "affiliation list \<Rightarrow> (string \<times> nat) list" where
  \<comment> \<open>\<open>groupby("authorid")["paperid"].nunique()\<close>: authors sorted, each with its number of
      distinct papers\<close>
  "groupby_nunique df =
     map (\<lambda>a. (a, length (remdups (map paperid (filter (\<lambda>r. authorid r = a) df)))))
       (sort (remdups (map authorid df)))"

definition merged_count :: "(string \<times> nat) list \<Rightarrow> string \<Rightarrow> nat" where
  \<comment> \<open>the column a left \<open>merge\<close> on \<open>authorid\<close> adds, after \<open>fillna\<close> with 0\<close>
  "merged_count counts a = (case map_of counts a of Some n \<Rightarrow> n | None \<Rightarrow> 0)"

record author_node = node +
  department :: string
  papers_published :: int
  first_author_papers :: int
  corr_author_papers :: int
  h_index :: int

definition author_nodes :: "affiliation list \<Rightarrow> author_node list" where
  \<comment> \<open>lines 178-198\<close>
  "author_nodes df_clean =
     (let author_papers = groupby_nunique df_clean;
          first_authors = groupby_nunique (filter (\<lambda>r. author_position_clean r = 1) df_clean);
          corr_authors = groupby_nunique (filter (\<lambda>r. author_position_clean r = - 1) df_clean);
          author_attrs = filter (\<lambda>row. 0 \<le> snd row) author_papers
      in map (\<lambda>row.
                \<lparr>node_id = fst row,
                 name = ''Author_'' @ fst row,
                 department = ''Yeshiva University, Computer Science Department'',
                 papers_published = int (snd row),
                 first_author_papers = int (merged_count first_authors (fst row)),
                 corr_author_papers = int (merged_count corr_authors (fst row)),
                 h_index = int (min (snd row) 15)\<rparr>)
           author_attrs)"

definition paper_authors :: "affiliation list \<Rightarrow> (string \<times> string list) list" where
  \<comment> \<open>line 201: papers sorted, each with the authors of its rows, in row order\<close>
  "paper_authors df_clean =
     map (\<lambda>p. (p, map authorid (filter (\<lambda>r. paperid r = p) df_clean)))
       (sort (remdups (map paperid df_clean)))"

fun combinations2 :: "'a list \<Rightarrow> ('a \<times> 'a) list" where
  \<comment> \<open>\<open>itertools.combinations(xs, 2)\<close>: the pairs of positions \<open>i < j\<close>\<close>
  "combinations2 [] = []"
| "combinations2 (x # xs) = map (Pair x) xs @ combinations2 xs"

record collaboration_pair =
  source_author :: string
  target_author :: string
  pair_paperid :: string

definition paper_pairs :: "string \<times> string list \<Rightarrow> collaboration_pair list" where
  \<comment> \<open>the body of the loop of lines 204-213\<close>
  "paper_pairs row =
     (let authors = sort (snd row) in
      if length authors \<ge> 2 then
        map (\<lambda>pair. \<lparr>source_author = fst pair, target_author = snd pair, pair_paperid = fst row\<rparr>)
          (combinations2 authors)
      else [])"

definition collaboration_pairs :: "(string \<times> string list) list \<Rightarrow> collaboration_pair list" where
  "collaboration_pairs rows = concat (map paper_pairs rows)"

definition collaboration_counts ::
  "collaboration_pair list \<Rightarrow> py_exception + ((string \<times> string) \<times> nat) list"
where
  \<comment> \<open>lines 215-217: a frame made of no rows has no columns, and grouping it by
      \<open>source_author\<close> raises \<open>KeyError\<close>\<close>
  "collaboration_counts pairs =
     (if pairs = [] then Inl (KeyError ''source_author'')
      else Inr (groupby_size (map (\<lambda>p. (source_author p, target_author p)) pairs)))"

record collaboration_link = link +
  co_authored_papers :: int

definition collaboration_links ::
  "string list \<Rightarrow> ((string \<times> string) \<times> nat) list \<Rightarrow> collaboration_link list"
where
  \<comment> \<open>lines 219-232\<close>
  "collaboration_links node_ids counts =
     map (\<lambda>row. \<lparr>source = fst (fst row), target = snd (fst row), link_value = int (snd row),
                 co_authored_papers = int (snd row)\<rparr>)
       (filter (\<lambda>row. fst (fst row) \<in> set node_ids \<and> snd (fst row) \<in> set node_ids) counts)"

definition fullwidth_colon :: string where
  \<comment> \<open>the character U+FF1A of the two messages, in UTF-8\<close>
  "fullwidth_colon = [CHR 0xEF, CHR 0xBC, CHR 0x9A]"

definition collaboration_not_found :: "string \<Rightarrow> string" where
  "collaboration_not_found affils_csv_path =
     ''The CSV file for the author collaboration network could not be found.''
       @ fullwidth_colon @ affils_csv_path"

definition collaboration_failed :: "py_exception \<Rightarrow> string" where
  "collaboration_failed e =
     ''Author collaboration network data processing failed'' @ fullwidth_colon @ exception_str e"

definition collaboration_graph ::
  "csv_affiliation list \<Rightarrow> py_exception + author_node list \<times> collaboration_link list"
where
  \<comment> \<open>lines 169-234, on the sampled frame\<close>
  "collaboration_graph affils_df =
     (case apply_clean_author_position affils_df of
        Inl e \<Rightarrow> Inl e
      | Inr with_position \<Rightarrow>
          (let df_clean = clean_affiliations with_position;
               node_list = author_nodes df_clean
           in case collaboration_counts (collaboration_pairs (paper_authors df_clean)) of
                Inl e \<Rightarrow> Inl e
              | Inr counts \<Rightarrow> Inr (node_list, collaboration_links (map node_id node_list) counts)))"

definition generate_collaboration_network ::
  "string \<Rightarrow> (string \<Rightarrow> bool) \<Rightarrow> (string \<Rightarrow> py_exception + csv_affiliation list)
     \<Rightarrow> (author_node, collaboration_link) result"
where
  "generate_collaboration_network CURRENT_DIR path_exists read_csv =
     (let affils_csv_path = path_join CURRENT_DIR ''affils_yeshiva_cs_20_25.csv'' in
      if \<not> path_exists affils_csv_path then error_result (collaboration_not_found affils_csv_path)
      else
        (case read_csv affils_csv_path of
           Inl e \<Rightarrow> error_result (collaboration_failed e)
         | Inr affils_df \<Rightarrow>
             (case collaboration_graph (sample_papers affils_df) of
                Inl e \<Rightarrow> error_result (collaboration_failed e)
              | Inr graph \<Rightarrow> graph_result (fst graph) (snd graph))))"

section \<open>convert_numpy_types (app.py, lines 15-28)\<close>

text \<open>
  The values the function can meet.
  \<^item> Plain Python values: \<open>None\<close>, booleans, integers, floats, strings, tuples, lists and
    dicts (a dict is the list of its items in insertion order, a subclass of \<open>dict\<close> or
    \<open>list\<close> counts as its base), and \<open>PyOther\<close> for an object of any other Python type
    (a set, a complex number, a date, an instance of a class), given by the name of its
    type and the values it holds.
  \<^item> Numpy scalars: \<open>NpInteger\<close> for an instance of \<open>np.integer\<close>, carrying the integer
    that \<open>int(obj)\<close> returns; \<open>NpFloating\<close> for an instance of \<open>np.floating\<close>, carrying
    the double that \<open>float(obj)\<close> returns; \<open>NpScalar\<close> for a numpy scalar of any other
    kind (\<open>np.bool_\<close>, \<open>np.str_\<close>, \<open>np.datetime64\<close>, \<open>np.complex128\<close>), given by its text.
  \<^item> Numpy arrays: an array is an item or a sequence of sub-arrays. \<open>tolist()\<close> hands
    out an integer, float, boolean or string item as the Python scalar, and any other
    item as an object: the stored object for dtype \<open>object\<close>, the Python value or numpy
    scalar numpy chooses for the remaining dtypes.
\<close>

datatype pyobj =
    PyNone
  | PyBool bool
  | PyInt int
  | PyFloat pyfloat
  | PyStr string
  | PyTuple "pyobj list"
  | PyList "pyobj list"
  | PyDict "(pyobj \<times> pyobj) list"
  | PyOther string "pyobj list"
  | NpInteger int
  | NpFloating pyfloat
  | NpScalar string
  | NpArray ndarray
and ndarray =
    NdInt int
  | NdFloat pyfloat
  | NdBool bool
  | NdStr string
  | NdObject pyobj
  | NdDim "ndarray list"

fun tolist :: "ndarray \<Rightarrow> pyobj" where
  \<comment> \<open>\<open>ndarray.tolist()\<close>\<close>
  "tolist (NdInt n) = PyInt n"
| "tolist (NdFloat x) = PyFloat x"
| "tolist (NdBool b) = PyBool b"
| "tolist (NdStr s) = PyStr s"
| "tolist (NdObject obj) = obj"
| "tolist (NdDim xs) = PyList (map tolist xs)"

fun convert_numpy_types :: "pyobj \<Rightarrow> pyobj" where
  "convert_numpy_types (NpInteger n) = PyInt n"
| "convert_numpy_types (NpFloating x) = PyFloat x"
| "convert_numpy_types (NpArray a) = tolist a"
| "convert_numpy_types (PyDict items) =
     PyDict (map (\<lambda>item. (fst item, convert_numpy_types (snd item))) items)"
| "convert_numpy_types (PyList xs) = PyList (map convert_numpy_types xs)"
| "convert_numpy_types obj = obj"

text \<open>
  What the normalizer is meant to leave behind: a value with no numpy scalar and no numpy
  array anywhere in it, dict keys and the items of tuples and other objects included.
\<close>

fun is_plain :: "pyobj \<Rightarrow> bool" where
  "is_plain (NpInteger n) = False"
| "is_plain (NpFloating x) = False"
| "is_plain (NpScalar t) = False"
| "is_plain (NpArray a) = False"
| "is_plain (PyDict items) = list_all (\<lambda>item. is_plain (fst item) \<and> is_plain (snd item)) items"
| "is_plain (PyList xs) = list_all is_plain xs"
| "is_plain (PyTuple xs) = list_all is_plain xs"
| "is_plain (PyOther t xs) = list_all is_plain xs"
| "is_plain obj = True"



section \<open>The dictionaries the builders return\<close>

text \<open>
  A builder ends by applying \<open>convert_numpy_types\<close> to the dictionary it has built. The
  ids are Python strings and every number was made by \<open>int()\<close> or \<open>float()\<close>, so the
  dictionary is plain and the call returns it as it is (lemma \<open>convert_builder_results\<close>
  below); the builders above therefore return the record itself.
\<close>

fun encode_publish_year :: "publish_year \<Rightarrow> pyobj" where
  "encode_publish_year (Year y) = PyInt y"
| "encode_publish_year Unknown = PyStr ''Unknown''"

definition encode_paper_node :: "paper_node \<Rightarrow> pyobj" where
  "encode_paper_node n =
     PyDict [(PyStr ''id'', PyStr (node_id n)),
             (PyStr ''name'', PyStr (name n)),
             (PyStr ''publish_year'', encode_publish_year (publish_year n)),
             (PyStr ''citation_count'', PyInt (citation_count n)),
             (PyStr ''institution'', PyStr (institution n))]"

definition encode_enhanced_node :: "enhanced_node \<Rightarrow> pyobj" where
  "encode_enhanced_node n =
     PyDict [(PyStr ''id'', PyStr (node_id n)),
             (PyStr ''name'', PyStr (name n)),
             (PyStr ''publish_year'', encode_publish_year (publish_year n)),
             (PyStr ''citation_count'', PyInt (citation_count n)),
             (PyStr ''institution'', PyStr (institution n)),
             (PyStr ''topic'', PyStr (topic n)),
             (PyStr ''impact_score'', PyFloat (impact_score n))]"

definition encode_citation_link :: "citation_link \<Rightarrow> pyobj" where
  "encode_citation_link l =
     PyDict [(PyStr ''source'', PyStr (source l)),
             (PyStr ''target'', PyStr (target l)),
             (PyStr ''value'', PyInt (link_value l)),
             (PyStr ''citing_year'', PyInt (citing_year l)),
             (PyStr ''cited_year'', PyInt (cited_year l)),
             (PyStr ''year_diff'', PyInt (year_diff l))]"

definition encode_author_node :: "author_node \<Rightarrow> pyobj" where
  "encode_author_node n =
     PyDict [(PyStr ''id'', PyStr (node_id n)),
             (PyStr ''name'', PyStr (name n)),
             (PyStr ''department'', PyStr (department n)),
             (PyStr ''papers_published'', PyInt (papers_published n)),
             (PyStr ''first_author_papers'', PyInt (first_author_papers n)),
             (PyStr ''corr_author_papers'', PyInt (corr_author_papers n)),
             (PyStr ''h_index'', PyInt (h_index n))]"

definition encode_collaboration_link :: "collaboration_link \<Rightarrow> pyobj" where
  "encode_collaboration_link l =
     PyDict [(PyStr ''source'', PyStr (source l)),
             (PyStr ''target'', PyStr (target l)),
             (PyStr ''value'', PyInt (link_value l)),
             (PyStr ''co_authored_papers'', PyInt (co_authored_papers l))]"

definition encode_result :: "('n \<Rightarrow> pyobj) \<Rightarrow> ('l \<Rightarrow> pyobj) \<Rightarrow> ('n, 'l) result \<Rightarrow> pyobj" where
  "encode_result encode_node encode_link r =
     (case error r of
        Some msg \<Rightarrow>
          PyDict [(PyStr ''error'', PyStr msg),
                  (PyStr ''nodes'', PyList (map encode_node (nodes r))),
                  (PyStr ''links'', PyList (map encode_link (links r)))]
      | None \<Rightarrow>
          PyDict [(PyStr ''nodes'', PyList (map encode_node (nodes r))),
                  (PyStr ''links'', PyList (map encode_link (links r)))])"

section \<open>Auxiliary definitions for the statements\<close>

definition link_of :: "citation list \<Rightarrow> (string \<times> string) \<times> nat \<Rightarrow> citation_link" where
  \<comment> \<open>the edge the loop appends for a group, when both selections are non-empty\<close>
  "link_of df_clean g =
     (let citing_y = year (hd (filter (\<lambda>r. citing_paperid r = snd (fst g)) df_clean));
          cited_y = ref_year (hd (filter (\<lambda>r. cited_paperid r = fst (fst g)) df_clean))
      in \<lparr>source = fst (fst g), target = snd (fst g), link_value = int (snd g),
           citing_year = citing_y, cited_year = cited_y, year_diff = citing_y - cited_y\<rparr>)"

definition graph_ok :: "('a node_scheme, 'b link_scheme) result \<Rightarrow> bool" where
  \<comment> \<open>node ids are unique, and the endpoints of every edge are node ids\<close>
  "graph_ok g =
     (distinct (map node_id (nodes g)) \<and>
      (\<forall>l \<in> set (links g).
         source l \<in> set (map node_id (nodes g)) \<and> target l \<in> set (map node_id (nodes g))))"

text \<open>The author pairs of a paper, as the keys the pairs are grouped by.\<close>

definition pair_keys :: "string \<times> string list \<Rightarrow> (string \<times> string) list" where
  "pair_keys row = map (\<lambda>p. (source_author p, target_author p)) (paper_pairs row)"

section \<open>Example tables\<close>

definition affiliation_row :: "string \<Rightarrow> string \<Rightarrow> string \<Rightarrow> cell \<Rightarrow> csv_affiliation" where
  "affiliation_row p a i c =
     \<lparr>paperid_cell = Some p, authorid_cell = Some a, institutionid_cell = Some i,
      author_position = c\<rparr>"

definition example_affiliations :: "csv_affiliation list" where
  "example_affiliations =
     [affiliation_row ''P1'' ''B'' ''I1'' (CInt 1),
      affiliation_row ''P1'' ''A'' ''I1'' (CInt 2),
      affiliation_row ''P2'' ''B'' ''I1'' (CStr ''last''),
      affiliation_row ''P2'' ''A'' ''I2'' (CFloat (Finite 1 0)),
      affiliation_row ''P2'' ''C'' ''I1'' (CStr ''unknown'')]"

definition example_collaboration :: "(author_node, collaboration_link) result" where
  "example_collaboration =
     generate_collaboration_network ''/srv/app''
       (\<lambda>p. p = ''/srv/app/affils_yeshiva_cs_20_25.csv'') (\<lambda>p. Inr example_affiliations)"

text \<open>Two papers with one author each.\<close>

definition single_author_affiliations :: "csv_affiliation list" where
  "single_author_affiliations =
     [affiliation_row ''P1'' ''A'' ''I1'' (CInt 1),
      affiliation_row ''P2'' ''B'' ''I1'' (CInt 1)]"

text \<open>
  One paper with two authors, the first of them listed once for each of two institutions.
\<close>

definition two_institution_affiliations :: "csv_affiliation list" where
  "two_institution_affiliations =
     [affiliation_row ''P1'' ''A'' ''I1'' (CInt 1),
      affiliation_row ''P1'' ''A'' ''I2'' (CInt 1),
      affiliation_row ''P1'' ''B'' ''I1'' (CInt 2)]"

definition example_citations :: "csv_citation list" where
  "example_citations =
     [\<lparr>citing_paperid_cell = Some ''P1'', cited_paperid_cell = Some ''P2'',
        year_cell = Some 2021, ref_year_cell = Some 2021\<rparr>,
      \<lparr>citing_paperid_cell = Some ''P1'', cited_paperid_cell = Some ''P2'',
        year_cell = Some 2022, ref_year_cell = Some 2021\<rparr>,
      \<lparr>citing_paperid_cell = Some ''P3'', cited_paperid_cell = Some ''P1'',
        year_cell = Some 2019, ref_year_cell = Some 2018\<rparr>,
      \<lparr>citing_paperid_cell = None, cited_paperid_cell = Some ''P2'',
        year_cell = Some 2023, ref_year_cell = Some 2021\<rparr>]"

definition example_network :: "(paper_node, citation_link) result" where
  "example_network =
     generate_citation_network ''/srv/app'' (\<lambda>p. p = ''/srv/app/refs_yeshiva_cs_20_25.csv'')
       (\<lambda>p. Inr example_citations)"

text \<open>
  Double arithmetic for the examples: round to nearest, ties to even, on finite values;
  the results are not normalised, and overflow and the subnormal range, which the
  examples do not reach, are left out.
\<close>

function bit_length :: "int \<Rightarrow> nat" where
  "bit_length n = (if n \<le> 0 then 0 else Suc (bit_length (n div 2)))"
  by pat_completeness auto
termination
  by (relation "measure nat") auto

definition round_double :: "int \<Rightarrow> int \<Rightarrow> pyfloat" where
  "round_double m e =
     (let a = \<bar>m\<bar>; k = bit_length a - 53 in
      if k = 0 then Finite m e
      else
        (let q = a div 2 ^ k; r = a mod 2 ^ k; half = 2 ^ (k - 1);
             q' = (if r > half \<or> (r = half \<and> odd q) then q + 1 else q)
         in Finite (sgn m * q') (e + int k)))"

definition finite_double_ops :: float_ops where
  "finite_double_ops =
     \<lparr>float_of_int = (\<lambda>n. round_double n 0),
      float_mul = (\<lambda>x y. case (x, y) of
                      (Finite a e, Finite b f) \<Rightarrow> round_double (a * b) (e + f)
                    | _ \<Rightarrow> NaN),
      float_add = (\<lambda>x y. case (x, y) of
                      (Finite a e, Finite b f) \<Rightarrow>
                        round_double (a * 2 ^ nat (e - min e f) + b * 2 ^ nat (f - min e f)) (min e f)
                    | _ \<Rightarrow> NaN),
      lit_0_8 = Finite 3602879701896397 (- 52),
      lit_2_0 = Finite 1 1\<rparr>"

definition example_enhanced :: "(enhanced_node, citation_link) result" where
  "example_enhanced =
     generate_enhanced_citation_network finite_double_ops ''/srv/app''
       (\<lambda>p. p = ''/srv/app/refs_yeshiva_cs_20_25.csv'') (\<lambda>p. Inr example_citations)"


section \<open>Properties of clean_author_position\<close>

lemma clean_author_position_examples:
  "map clean_author_position
     [CInt 1, CStr ''1'', CStr ''middle'', CStr ''last'', CStr ''corresponding'',
      CStr ''unknown'', CNone]
   = [Inr (Some 1), Inr (Some 1), Inr (Some 2), Inr (Some (- 1)), Inr (Some (- 1)),
      Inr None, Inr None]"
  by code_simp

lemma clean_author_position_returns:
  assumes "position \<noteq> CFloat PosInf" and "position \<noteq> CFloat NegInf"
  shows "\<exists>r. clean_author_position position = Inr r"
proof (cases position)
  case (CFloat x)
  with assms show ?thesis
    by (cases x)
      (simp_all add: clean_author_position_def pd_isna_def py_int_def int_of_float_def)
next
  case (CStr s)
  then show ?thesis
    by (cases "int_of_string s")
      (simp_all add: clean_author_position_def pd_isna_def py_int_def is_caught_def)
qed (simp_all add: clean_author_position_def pd_isna_def py_int_def)

text \<open>
  Claim C4. The resolver is stated to be total, with no exception path: no input raises.
  The code catches \<open>ValueError\<close> and \<open>TypeError\<close> only. A cell holding a float infinity
  (the text \<open>inf\<close> in a numeric column) is not missing, \<open>int\<close> raises \<open>OverflowError\<close> on
  it, and the exception leaves the function.
\<close>

theorem clean_author_position_infinity_raises:
  "clean_author_position (CFloat PosInf)
     = Inl (OverflowError ''cannot convert float infinity to integer'')"
  by (simp add: clean_author_position_def pd_isna_def py_int_def int_of_float_def is_caught_def)

section \<open>Properties of the data-frame operations\<close>

lemma set_unique [simp]: "set (unique xs) = set xs"
  by (simp add: unique_def)

lemma distinct_unique [simp]: "distinct (unique xs)"
  by (simp add: unique_def)


lemma map_fst_groupby_size: "map fst (groupby_size ks) = sort (remdups ks)"
  by (simp add: groupby_size_def comp_def)

lemma count_list_map_filter: "count_list (map f xs) k = length (filter (\<lambda>r. f r = k) xs)"
  by (induction xs) auto

lemma set_map_filter: "set (List.map_filter f xs) = {y. \<exists>x\<in>set xs. f x = Some y}"
  by (induction xs) (auto split: option.splits)

lemma find_filter: "find P xs = (case filter P xs of [] \<Rightarrow> None | x # _ \<Rightarrow> Some x)"
  by (induction xs) auto

lemma find_hd_filter: "x \<in> set xs \<Longrightarrow> P x \<Longrightarrow> find P xs = Some (hd (filter P xs))"
proof -
  assume "x \<in> set xs" "P x"
  then have "filter P xs \<noteq> []" by (auto simp: filter_empty_conv)
  then show ?thesis by (cases "filter P xs") (auto simp: find_filter)
qed

lemma iloc0_map_filter:
  "x \<in> set xs \<Longrightarrow> P x \<Longrightarrow> iloc0 (map f (filter P xs)) = Inr (f (hd (filter P xs)))"
proof -
  assume "x \<in> set xs" "P x"
  then have "filter P xs \<noteq> []" by (auto simp: filter_empty_conv)
  then show ?thesis by (cases "filter P xs") (auto simp: iloc0_def)
qed

section \<open>Properties of the citation builders\<close>

lemma dropna_citation_Some:
  "dropna_citation row = Some r \<longleftrightarrow>
     citing_paperid_cell row = Some (citing_paperid r) \<and>
     cited_paperid_cell row = Some (cited_paperid r) \<and>
     year_cell row = Some (year r) \<and> ref_year_cell row = Some (ref_year r)"
  by (cases r) (auto simp: dropna_citation_def split: option.splits)

lemma clean_citations_retained:
  "r \<in> set (clean_citations df) \<longleftrightarrow>
     (\<exists>row \<in> set df.
        citing_paperid_cell row = Some (citing_paperid r) \<and>
        cited_paperid_cell row = Some (cited_paperid r) \<and>
        year_cell row = Some (year r) \<and> ref_year_cell row = Some (ref_year r)) \<and>
     2020 \<le> year r \<and> year r \<le> 2025"
  by (auto simp: clean_citations_def set_map_filter dropna_citation_Some)

lemma citation_links_map:
  assumes "\<And>cited citing n. ((cited, citing), n) \<in> set gs \<Longrightarrow>
             cited \<in> set ids \<and> citing \<in> set ids \<and>
             (\<exists>r\<in>set df. citing_paperid r = citing) \<and> (\<exists>r\<in>set df. cited_paperid r = cited)"
  shows "citation_links df ids gs = Inr (map (link_of df) gs)"
  using assms
proof (induction gs)
  case Nil
  then show ?case by simp
next
  case (Cons g rest)
  obtain cited citing n where g: "g = ((cited, citing), n)"
    by (cases g) auto
  have h: "cited \<in> set ids \<and> citing \<in> set ids \<and>
             (\<exists>r\<in>set df. citing_paperid r = citing) \<and> (\<exists>r\<in>set df. cited_paperid r = cited)"
    using Cons.prems[of cited citing n] g by simp
  then obtain r1 r2 where r1: "r1 \<in> set df" "citing_paperid r1 = citing"
    and r2: "r2 \<in> set df" "cited_paperid r2 = cited" by blast
  have a: "iloc0 (map year (filter (\<lambda>r. citing_paperid r = citing) df))
           = Inr (year (hd (filter (\<lambda>r. citing_paperid r = citing) df)))"
    using iloc0_map_filter[of r1 df "\<lambda>r. citing_paperid r = citing" year] r1 by simp
  have b: "iloc0 (map ref_year (filter (\<lambda>r. cited_paperid r = cited) df))
           = Inr (ref_year (hd (filter (\<lambda>r. cited_paperid r = cited) df)))"
    using iloc0_map_filter[of r2 df "\<lambda>r. cited_paperid r = cited" ref_year] r2 by simp
  have ih: "citation_links df ids rest = Inr (map (link_of df) rest)"
    by (rule Cons.IH) (use Cons.prems in auto)
  show ?case using h a b ih by (simp add: g link_of_def Let_def)
qed

lemma set_all_paper_ids:
  "set (all_paper_ids df) = citing_paperid ` set df \<union> cited_paperid ` set df"
  by (simp add: all_paper_ids_def)

lemma node_ids_citation: "map node_id (citation_nodes df) = all_paper_ids df"
  by (simp add: citation_nodes_def citation_node_def Let_def comp_def)

lemma node_ids_enhanced: "map node_id (enhanced_nodes fl df) = all_paper_ids df"
  by (simp add: enhanced_nodes_def enhanced_node_def Let_def comp_def)

lemma link_groups_ok:
  assumes "((cited, citing), n) \<in> set (link_groups df)"
  shows "cited \<in> set (all_paper_ids df) \<and> citing \<in> set (all_paper_ids df) \<and>
         (\<exists>r\<in>set df. citing_paperid r = citing) \<and> (\<exists>r\<in>set df. cited_paperid r = cited)"
proof -
  from assms have "(cited, citing) \<in> set (map (\<lambda>r. (cited_paperid r, citing_paperid r)) df)"
    by (auto simp: link_groups_def groupby_size_def)
  then obtain r where "r \<in> set df" "cited_paperid r = cited" "citing_paperid r = citing"
    by auto
  then show ?thesis by (auto simp: set_all_paper_ids)
qed

lemma citation_links_groups:
  "citation_links df (all_paper_ids df) (link_groups df) = Inr (map (link_of df) (link_groups df))"
  by (rule citation_links_map) (use link_groups_ok in blast)

lemma generate_citation_network_loaded:
  assumes "path_exists (path_join dir ''refs_yeshiva_cs_20_25.csv'')"
    and "read_csv (path_join dir ''refs_yeshiva_cs_20_25.csv'') = Inr df"
  shows "generate_citation_network dir path_exists read_csv =
           graph_result (citation_nodes (clean_citations df))
             (map (link_of (clean_citations df)) (link_groups (clean_citations df)))"
  using assms
  by (simp add: generate_citation_network_def Let_def node_ids_citation citation_links_groups)

lemma generate_enhanced_loaded:
  assumes "path_exists (path_join dir ''refs_yeshiva_cs_20_25.csv'')"
    and "read_csv (path_join dir ''refs_yeshiva_cs_20_25.csv'') = Inr df"
  shows "generate_enhanced_citation_network fl dir path_exists read_csv =
           graph_result (enhanced_nodes fl (clean_citations df))
             (map (link_of (clean_citations df)) (link_groups (clean_citations df)))"
  using assms
  by (simp add: generate_enhanced_citation_network_def Let_def node_ids_enhanced
        citation_links_groups)

lemma endpoints_links:
  "map (\<lambda>l. (source l, target l)) (map (link_of df) (link_groups df))
     = sort (remdups (map (\<lambda>r. (cited_paperid r, citing_paperid r)) df))"
proof -
  have "(\<lambda>l. (source l, target l)) \<circ> link_of df = fst"
    by (auto simp: fun_eq_iff link_of_def Let_def)
  then show ?thesis
    by (simp add: link_groups_def map_fst_groupby_size)
qed

lemma link_of_group:
  assumes "l \<in> set (map (link_of df) (link_groups df))"
  shows "link_value l
           = int (length (filter (\<lambda>r. cited_paperid r = source l \<and> citing_paperid r = target l) df))
    \<and> (\<exists>r. find (\<lambda>r. citing_paperid r = target l) df = Some r \<and> citing_year l = year r)
    \<and> (\<exists>r. find (\<lambda>r. cited_paperid r = source l) df = Some r \<and> cited_year l = ref_year r)
    \<and> year_diff l = citing_year l - cited_year l"
proof -
  from assms obtain cited citing n where g: "((cited, citing), n) \<in> set (link_groups df)"
    and l: "l = link_of df ((cited, citing), n)" by auto
  from g have n: "n = count_list (map (\<lambda>r. (cited_paperid r, citing_paperid r)) df) (cited, citing)"
    by (auto simp: link_groups_def groupby_size_def)
  from link_groups_ok[OF g] obtain r1 r2 where r1: "r1 \<in> set df" "citing_paperid r1 = citing"
    and r2: "r2 \<in> set df" "cited_paperid r2 = cited" by blast
  have s: "source l = cited" "target l = citing" "link_value l = int n"
    by (simp_all add: l link_of_def Let_def)
  have c1: "find (\<lambda>r. citing_paperid r = citing) df
              = Some (hd (filter (\<lambda>r. citing_paperid r = citing) df))"
    using find_hd_filter[of r1 df "\<lambda>r. citing_paperid r = citing"] r1 by simp
  have c2: "find (\<lambda>r. cited_paperid r = cited) df
              = Some (hd (filter (\<lambda>r. cited_paperid r = cited) df))"
    using find_hd_filter[of r2 df "\<lambda>r. cited_paperid r = cited"] r2 by simp
  have y: "citing_year l = year (hd (filter (\<lambda>r. citing_paperid r = citing) df))"
     "cited_year l = ref_year (hd (filter (\<lambda>r. cited_paperid r = cited) df))"
     "year_diff l = citing_year l - cited_year l"
    by (simp_all add: l link_of_def Let_def)
  show ?thesis
    by (simp add: s n count_list_map_filter c1 c2 y)
qed

text \<open>
  Claim C2. When the citation table is read, the builder succeeds and emits exactly one
  edge per distinct pair (cited id, citing id) of the retained records. The value of an
  edge is the number of retained records with that pair, its \<open>citing_year\<close> is the year of
  the first retained record with its citing id, its \<open>cited_year\<close> the reference year of the
  first retained record with its cited id, and \<open>year_diff\<close> is their difference.
\<close>

theorem citation_edges_per_pair:
  assumes "path_exists (path_join dir ''refs_yeshiva_cs_20_25.csv'')"
    and "read_csv (path_join dir ''refs_yeshiva_cs_20_25.csv'') = Inr df"
  shows "error (generate_citation_network dir path_exists read_csv) = None
    \<and> distinct (map (\<lambda>l. (source l, target l))
         (links (generate_citation_network dir path_exists read_csv)))
    \<and> set (map (\<lambda>l. (source l, target l))
         (links (generate_citation_network dir path_exists read_csv)))
        = set (map (\<lambda>r. (cited_paperid r, citing_paperid r)) (clean_citations df))
    \<and> (\<forall>l \<in> set (links (generate_citation_network dir path_exists read_csv)).
          link_value l
            = int (length (filter (\<lambda>r. cited_paperid r = source l \<and> citing_paperid r = target l)
                     (clean_citations df)))
        \<and> (\<exists>r. find (\<lambda>r. citing_paperid r = target l) (clean_citations df) = Some r
               \<and> citing_year l = year r)
        \<and> (\<exists>r. find (\<lambda>r. cited_paperid r = source l) (clean_citations df) = Some r
               \<and> cited_year l = ref_year r)
        \<and> year_diff l = citing_year l - cited_year l)"
proof -
  define g where "g = generate_citation_network dir path_exists read_csv"
  define retained where "retained = clean_citations df"
  have g: "g = graph_result (citation_nodes retained) (map (link_of retained) (link_groups retained))"
    unfolding g_def retained_def by (rule generate_citation_network_loaded) fact+
  have l: "links g = map (link_of retained) (link_groups retained)"
    and e: "error g = None"
    by (simp_all add: g graph_result_def)
  have d: "distinct (map (\<lambda>l. (source l, target l)) (links g))"
    unfolding l endpoints_links by simp
  have s: "set (map (\<lambda>l. (source l, target l)) (links g))
        = set (map (\<lambda>r. (cited_paperid r, citing_paperid r)) retained)"
    unfolding l endpoints_links by simp
  have "error g = None
    \<and> distinct (map (\<lambda>l. (source l, target l)) (links g))
    \<and> set (map (\<lambda>l. (source l, target l)) (links g))
        = set (map (\<lambda>r. (cited_paperid r, citing_paperid r)) retained)
    \<and> (\<forall>l \<in> set (links g).
          link_value l
            = int (length (filter (\<lambda>r. cited_paperid r = source l \<and> citing_paperid r = target l)
                     retained))
        \<and> (\<exists>r. find (\<lambda>r. citing_paperid r = target l) retained = Some r \<and> citing_year l = year r)
        \<and> (\<exists>r. find (\<lambda>r. cited_paperid r = source l) retained = Some r \<and> cited_year l = ref_year r)
        \<and> year_diff l = citing_year l - cited_year l)"
    using e d s link_of_group[of _ retained] unfolding l by blast
  then show ?thesis unfolding g_def retained_def .
qed

lemma example_network_value:
  "example_network =
     \<lparr>error = None,
      nodes =
        [\<lparr>node_id = ''P1'', name = ''Paper_P1'', publish_year = Year 2021, citation_count = 0,
           institution = ''Yeshiva University, Computer Science Department''\<rparr>,
         \<lparr>node_id = ''P2'', name = ''Paper_P2'', publish_year = Year 2021, citation_count = 2,
           institution = ''Yeshiva University, Computer Science Department''\<rparr>],
      links =
        [\<lparr>source = ''P2'', target = ''P1'', link_value = 2, citing_year = 2021,
           cited_year = 2021, year_diff = 0\<rparr>]\<rparr>"
  by code_simp

theorem citation_edges_per_pair_witness:
  "error example_network = None
   \<and> distinct (map (\<lambda>l. (source l, target l)) (links example_network))
   \<and> links example_network =
        [\<lparr>source = ''P2'', target = ''P1'', link_value = 2, citing_year = 2021,
           cited_year = 2021, year_diff = 0\<rparr>]"
proof -
  have p: "path_join ''/srv/app'' ''refs_yeshiva_cs_20_25.csv'' = ''/srv/app/refs_yeshiva_cs_20_25.csv''"
    by (simp add: path_join_def)
  have r: "(Inr example_citations :: py_exception + csv_citation list) = Inr example_citations"
    by simp
  note t = citation_edges_per_pair
     [where path_exists = "\<lambda>p. p = ''/srv/app/refs_yeshiva_cs_20_25.csv''"
        and dir = "''/srv/app''" and read_csv = "\<lambda>p. Inr example_citations"
        and df = example_citations, OF p r, folded example_network_def]
  from t show ?thesis
    by (simp add: example_network_value)
qed

text \<open>
  Claim C3. When the citation table is read, the builder succeeds; the ids of its nodes
  are pairwise different and are exactly the ids that occur as citing or cited id in a
  retained record, so each such id has exactly one node; the \<open>citation_count\<close> of a node
  is the number of retained records whose cited id is the node's id.
\<close>

theorem citation_nodes_per_id:
  assumes "path_exists (path_join dir ''refs_yeshiva_cs_20_25.csv'')"
    and "read_csv (path_join dir ''refs_yeshiva_cs_20_25.csv'') = Inr df"
  shows "error (generate_citation_network dir path_exists read_csv) = None
    \<and> distinct (map node_id (nodes (generate_citation_network dir path_exists read_csv)))
    \<and> set (map node_id (nodes (generate_citation_network dir path_exists read_csv)))
        = citing_paperid ` set (clean_citations df) \<union> cited_paperid ` set (clean_citations df)
    \<and> (\<forall>n \<in> set (nodes (generate_citation_network dir path_exists read_csv)).
          citation_count n
            = int (length (filter (\<lambda>r. cited_paperid r = node_id n) (clean_citations df))))"
proof -
  define g where "g = generate_citation_network dir path_exists read_csv"
  define retained where "retained = clean_citations df"
  have g: "g = graph_result (citation_nodes retained) (map (link_of retained) (link_groups retained))"
    unfolding g_def retained_def by (rule generate_citation_network_loaded) fact+
  have n: "nodes g = citation_nodes retained" and e: "error g = None"
    by (simp_all add: g graph_result_def)
  have d: "distinct (map node_id (nodes g))"
    by (simp add: n node_ids_citation all_paper_ids_def)
  have s: "set (map node_id (nodes g)) = citing_paperid ` set retained \<union> cited_paperid ` set retained"
    by (simp add: n node_ids_citation set_all_paper_ids)
  have c: "\<forall>n \<in> set (nodes g).
          citation_count n = int (length (filter (\<lambda>r. cited_paperid r = node_id n) retained))"
    by (auto simp: n citation_nodes_def citation_node_def Let_def)
  have "error g = None
    \<and> distinct (map node_id (nodes g))
    \<and> set (map node_id (nodes g)) = citing_paperid ` set retained \<union> cited_paperid ` set retained
    \<and> (\<forall>n \<in> set (nodes g).
          citation_count n = int (length (filter (\<lambda>r. cited_paperid r = node_id n) retained)))"
    using e d s c by blast
  then show ?thesis unfolding g_def retained_def .
qed



theorem citation_nodes_per_id_witness:
  "error example_network = None
   \<and> distinct (map node_id (nodes example_network))
   \<and> map (\<lambda>n. (node_id n, citation_count n)) (nodes example_network) = [(''P1'', 0), (''P2'', 2)]"
proof -
  have p: "path_join ''/srv/app'' ''refs_yeshiva_cs_20_25.csv'' = ''/srv/app/refs_yeshiva_cs_20_25.csv''"
    by (simp add: path_join_def)
  have r: "(Inr example_citations :: py_exception + csv_citation list) = Inr example_citations"
    by simp
  note t = citation_nodes_per_id
     [where path_exists = "\<lambda>p. p = ''/srv/app/refs_yeshiva_cs_20_25.csv''"
        and dir = "''/srv/app''" and read_csv = "\<lambda>p. Inr example_citations"
        and df = example_citations, OF p r, folded example_network_def]
  from t show ?thesis
    by (simp add: example_network_value)
qed

lemma truncate_enhanced_node:
  "paper_node.truncate (enhanced_node fl df paper_id) = citation_node df paper_id"
  by (simp add: enhanced_node_def citation_node_def Let_def paper_node.defs node.defs)

lemma truncate_enhanced_nodes:
  "map paper_node.truncate (enhanced_nodes fl df) = citation_nodes df"
  by (simp add: enhanced_nodes_def citation_nodes_def truncate_enhanced_node)

lemma enhanced_nodes_fields:
  "list_all (\<lambda>n. topic n = ''Computer Science''
               \<and> impact_score n = impact_score_of fl (citation_count n))
     (enhanced_nodes fl df)"
  by (simp add: enhanced_nodes_def enhanced_node_def Let_def list_all_iff)

text \<open>
  Claim C6. On every input the enhanced builder returns what the citation builder returns,
  with two more fields on each node: the error is the same, the links are the same, each
  node cut down to the fields of a paper node is the node of the citation builder, and
  on each node \<open>topic\<close> is \<open>Computer Science\<close> and \<open>impact_score\<close> is
  \<open>citation_count * 0.8 + 2.0\<close>, computed in the given float arithmetic.
\<close>

theorem enhanced_extends_citation:
  "error (generate_enhanced_citation_network fl dir path_exists read_csv)
      = error (generate_citation_network dir path_exists read_csv)
   \<and> map paper_node.truncate (nodes (generate_enhanced_citation_network fl dir path_exists read_csv))
      = nodes (generate_citation_network dir path_exists read_csv)
   \<and> links (generate_enhanced_citation_network fl dir path_exists read_csv)
      = links (generate_citation_network dir path_exists read_csv)
   \<and> list_all (\<lambda>n. topic n = ''Computer Science''
                  \<and> impact_score n = impact_score_of fl (citation_count n))
        (nodes (generate_enhanced_citation_network fl dir path_exists read_csv))"
proof (cases "path_exists (path_join dir ''refs_yeshiva_cs_20_25.csv'')")
  case False
  then show ?thesis
    by (simp add: generate_enhanced_citation_network_def generate_citation_network_def
          error_result_def)
next
  case True
  show ?thesis
  proof (cases "read_csv (path_join dir ''refs_yeshiva_cs_20_25.csv'')")
    case (Inl e)
    with True show ?thesis
      by (simp add: generate_enhanced_citation_network_def generate_citation_network_def
            error_result_def)
  next
    case (Inr df)
    show ?thesis
      unfolding generate_enhanced_loaded[of path_exists dir read_csv df fl, OF True Inr]
        generate_citation_network_loaded[of path_exists dir read_csv df, OF True Inr]
      by (simp add: graph_result_def truncate_enhanced_nodes enhanced_nodes_fields)
  qed
qed

lemma example_enhanced_value:
  "example_enhanced =
     \<lparr>error = None,
      nodes =
        [\<lparr>node_id = ''P1'', name = ''Paper_P1'', publish_year = Year 2021, citation_count = 0,
           institution = ''Yeshiva University, Computer Science Department'',
           topic = ''Computer Science'', impact_score = Finite 4503599627370496 (- 51)\<rparr>,
         \<lparr>node_id = ''P2'', name = ''Paper_P2'', publish_year = Year 2021, citation_count = 2,
           institution = ''Yeshiva University, Computer Science Department'',
           topic = ''Computer Science'', impact_score = Finite 8106479329266893 (- 51)\<rparr>],
      links =
        [\<lparr>source = ''P2'', target = ''P1'', link_value = 2, citing_year = 2021,
           cited_year = 2021, year_diff = 0\<rparr>]\<rparr>"
  by code_simp

theorem enhanced_extends_citation_witness:
  "error example_enhanced = error example_network
   \<and> map paper_node.truncate (nodes example_enhanced) = nodes example_network
   \<and> links example_enhanced = links example_network
   \<and> map topic (nodes example_enhanced) = [''Computer Science'', ''Computer Science'']
   \<and> map impact_score (nodes example_enhanced)
        = [Finite 4503599627370496 (- 51), Finite 8106479329266893 (- 51)]"
  using enhanced_extends_citation
     [where path_exists = "\<lambda>p. p = ''/srv/app/refs_yeshiva_cs_20_25.csv''"
        and dir = "''/srv/app''" and read_csv = "\<lambda>p. Inr example_citations"
        and fl = finite_double_ops,
      folded example_network_def example_enhanced_def]
  by (simp add: example_enhanced_value example_network_value paper_node.defs)


text \<open>
  Claim C7. When the path of the citation table does not exist, the citation builder and
  the enhanced builder return the error shape, with empty nodes and links and a message
  that contains the path; when the path of the affiliation table does not exist, so does
  the collaboration builder, with its path. The builders are total functions into
  results: no exception reaches the caller.
\<close>

theorem missing_table_error_shape:
  "(\<not> path_exists (path_join dir ''refs_yeshiva_cs_20_25.csv'') \<longrightarrow>
      (\<exists>msg. generate_citation_network dir path_exists read_refs
               = \<lparr>error = Some msg, nodes = [], links = []\<rparr>
            \<and> generate_enhanced_citation_network fl dir path_exists read_refs
               = \<lparr>error = Some msg, nodes = [], links = []\<rparr>
            \<and> sublist (path_join dir ''refs_yeshiva_cs_20_25.csv'') msg))
   \<and> (\<not> path_exists (path_join dir ''affils_yeshiva_cs_20_25.csv'') \<longrightarrow>
      (\<exists>msg. generate_collaboration_network dir path_exists read_affils
               = \<lparr>error = Some msg, nodes = [], links = []\<rparr>
            \<and> sublist (path_join dir ''affils_yeshiva_cs_20_25.csv'') msg))"
proof -
  have s: "sublist p (pre @ p)" for p pre :: string
    by (metis sublist_appendI append_Nil2)
  have c: "sublist p (citation_not_found p)" for p
    unfolding citation_not_found_def by (rule s)
  have a: "sublist p (collaboration_not_found p)" for p
    unfolding collaboration_not_found_def append_assoc[symmetric] by (rule s)
  show ?thesis
    using c a
    by (simp add: generate_citation_network_def generate_enhanced_citation_network_def
          generate_collaboration_network_def error_result_def)
qed

theorem missing_table_error_shape_witness:
  "generate_citation_network ''/srv/app'' (\<lambda>p. False) (\<lambda>p. Inr example_citations)
     = \<lparr>error = Some (citation_not_found ''/srv/app/refs_yeshiva_cs_20_25.csv''),
        nodes = [], links = []\<rparr>
   \<and> generate_enhanced_citation_network finite_double_ops ''/srv/app'' (\<lambda>p. False)
        (\<lambda>p. Inr example_citations)
     = \<lparr>error = Some (citation_not_found ''/srv/app/refs_yeshiva_cs_20_25.csv''),
        nodes = [], links = []\<rparr>
   \<and> generate_collaboration_network ''/srv/app'' (\<lambda>p. False) (\<lambda>p. Inr example_affiliations)
     = \<lparr>error = Some (collaboration_not_found ''/srv/app/affils_yeshiva_cs_20_25.csv''),
        nodes = [], links = []\<rparr>
   \<and> sublist ''/srv/app/refs_yeshiva_cs_20_25.csv''
        (citation_not_found ''/srv/app/refs_yeshiva_cs_20_25.csv'')
   \<and> sublist ''/srv/app/affils_yeshiva_cs_20_25.csv''
        (collaboration_not_found ''/srv/app/affils_yeshiva_cs_20_25.csv'')"
proof -
  have p: "path_join ''/srv/app'' ''refs_yeshiva_cs_20_25.csv'' = ''/srv/app/refs_yeshiva_cs_20_25.csv''"
    "path_join ''/srv/app'' ''affils_yeshiva_cs_20_25.csv'' = ''/srv/app/affils_yeshiva_cs_20_25.csv''"
    by (simp_all add: path_join_def)
  have c: "generate_citation_network ''/srv/app'' (\<lambda>p. False) (\<lambda>p. Inr example_citations)
     = \<lparr>error = Some (citation_not_found ''/srv/app/refs_yeshiva_cs_20_25.csv''),
        nodes = [], links = []\<rparr>"
    by (simp add: generate_citation_network_def p error_result_def)
  have e: "generate_enhanced_citation_network finite_double_ops ''/srv/app'' (\<lambda>p. False)
        (\<lambda>p. Inr example_citations)
     = \<lparr>error = Some (citation_not_found ''/srv/app/refs_yeshiva_cs_20_25.csv''),
        nodes = [], links = []\<rparr>"
    by (simp add: generate_enhanced_citation_network_def p error_result_def)
  have a: "generate_collaboration_network ''/srv/app'' (\<lambda>p. False) (\<lambda>p. Inr example_affiliations)
     = \<lparr>error = Some (collaboration_not_found ''/srv/app/affils_yeshiva_cs_20_25.csv''),
        nodes = [], links = []\<rparr>"
    by (simp add: generate_collaboration_network_def p error_result_def)
  note t = missing_table_error_shape
     [where path_exists = "\<lambda>p. False" and dir = "''/srv/app''"
        and read_refs = "\<lambda>p. Inr example_citations" and fl = finite_double_ops
        and read_affils = "\<lambda>p. Inr example_affiliations", unfolded p c a]
  from t c e a show ?thesis by auto
qed

section \<open>Properties of the collaboration builder\<close>

lemma node_ids_author_nodes:
  "map node_id (author_nodes df) = map fst (filter (\<lambda>row. 0 \<le> snd row) (groupby_nunique df))"
  by (simp add: author_nodes_def Let_def comp_def)

lemma distinct_author_nodes: "distinct (map node_id (author_nodes df))"
proof -
  have "map fst (groupby_nunique df) = sort (remdups (map authorid df))"
    by (simp add: groupby_nunique_def comp_def)
  then have "distinct (map fst (groupby_nunique df))" by simp
  then show ?thesis
    unfolding node_ids_author_nodes by (rule distinct_map_filter)
qed

lemma collaboration_links_endpoints:
  "l \<in> set (collaboration_links ids counts) \<Longrightarrow> source l \<in> set ids \<and> target l \<in> set ids"
  by (auto simp: collaboration_links_def)

lemma collaboration_graph_ok:
  assumes "collaboration_graph df = Inr graph"
  shows "graph_ok (graph_result (fst graph) (snd graph))"
  using assms
  by (auto simp: collaboration_graph_def Let_def graph_ok_def graph_result_def
        distinct_author_nodes split: sum.splits dest!: collaboration_links_endpoints)

lemma graph_ok_error: "graph_ok (error_result msg)"
  by (simp add: graph_ok_def error_result_def)

lemma citation_graph_ok:
  "graph_ok (graph_result (citation_nodes df) (map (link_of df) (link_groups df)))"
proof -
  have "source l \<in> set (all_paper_ids df) \<and> target l \<in> set (all_paper_ids df)"
    if "l \<in> set (map (link_of df) (link_groups df))" for l
  proof -
    from that obtain g where g: "g \<in> set (link_groups df)" and l: "l = link_of df g" by auto
    obtain cited citing n where "g = ((cited, citing), n)" by (cases g) auto
    with g l link_groups_ok[of cited citing n df] show ?thesis
      by (simp add: link_of_def Let_def)
  qed
  then show ?thesis
    by (simp add: graph_ok_def graph_result_def node_ids_citation all_paper_ids_def)
qed

lemma enhanced_graph_ok:
  "graph_ok (graph_result (enhanced_nodes fl df) (map (link_of df) (link_groups df)))"
  using citation_graph_ok[of df]
  by (simp add: graph_ok_def graph_result_def node_ids_citation node_ids_enhanced)

text \<open>
  Claim C9. For each of the three builders and every input, the node ids of the result
  are pairwise different and both endpoints of every edge are ids of nodes of that
  result. This holds of every result, so in particular of every successful one.
\<close>

theorem builders_graph_ok:
  "graph_ok (generate_citation_network dir path_exists read_refs)
   \<and> graph_ok (generate_collaboration_network dir path_exists read_affils)
   \<and> graph_ok (generate_enhanced_citation_network fl dir path_exists read_refs)"
proof -
  have c: "graph_ok (generate_citation_network dir path_exists read_refs)"
  proof (cases "path_exists (path_join dir ''refs_yeshiva_cs_20_25.csv'')")
    case False
    then show ?thesis by (simp add: generate_citation_network_def graph_ok_error)
  next
    case True
    show ?thesis
    proof (cases "read_refs (path_join dir ''refs_yeshiva_cs_20_25.csv'')")
      case (Inl e)
      with True show ?thesis by (simp add: generate_citation_network_def graph_ok_error)
    next
      case (Inr df)
      show ?thesis
        unfolding generate_citation_network_loaded[of path_exists dir read_refs df, OF True Inr]
        by (rule citation_graph_ok)
    qed
  qed
  have e: "graph_ok (generate_enhanced_citation_network fl dir path_exists read_refs)"
  proof (cases "path_exists (path_join dir ''refs_yeshiva_cs_20_25.csv'')")
    case False
    then show ?thesis by (simp add: generate_enhanced_citation_network_def graph_ok_error)
  next
    case True
    show ?thesis
    proof (cases "read_refs (path_join dir ''refs_yeshiva_cs_20_25.csv'')")
      case (Inl e)
      with True show ?thesis by (simp add: generate_enhanced_citation_network_def graph_ok_error)
    next
      case (Inr df)
      show ?thesis
        unfolding generate_enhanced_loaded[of path_exists dir read_refs df fl, OF True Inr]
        by (rule enhanced_graph_ok)
    qed
  qed
  have a: "graph_ok (generate_collaboration_network dir path_exists read_affils)"
    by (simp add: generate_collaboration_network_def Let_def graph_ok_error
          collaboration_graph_ok split: sum.splits)
  from c a e show ?thesis by blast
qed

lemma example_collaboration_value:
  "example_collaboration =
     \<lparr>error = None,
      nodes =
        [\<lparr>node_id = ''A'', name = ''Author_A'',
           department = ''Yeshiva University, Computer Science Department'',
           papers_published = 2, first_author_papers = 1, corr_author_papers = 0, h_index = 2\<rparr>,
         \<lparr>node_id = ''B'', name = ''Author_B'',
           department = ''Yeshiva University, Computer Science Department'',
           papers_published = 2, first_author_papers = 1, corr_author_papers = 1, h_index = 2\<rparr>],
      links = [\<lparr>source = ''A'', target = ''B'', link_value = 2, co_authored_papers = 2\<rparr>]\<rparr>"
  by code_simp

theorem builders_graph_ok_witness:
  "graph_ok example_network \<and> graph_ok example_collaboration
   \<and> map node_id (nodes example_network) = [''P1'', ''P2'']
   \<and> map (\<lambda>l. (source l, target l)) (links example_network) = [(''P2'', ''P1'')]
   \<and> map node_id (nodes example_collaboration) = [''A'', ''B'']
   \<and> map (\<lambda>l. (source l, target l)) (links example_collaboration) = [(''A'', ''B'')]"
  using builders_graph_ok
     [where path_exists = "\<lambda>p. p = ''/srv/app/refs_yeshiva_cs_20_25.csv''"
        and dir = "''/srv/app''" and read_refs = "\<lambda>p. Inr example_citations"
        and read_affils = "\<lambda>p. Inr []",
      folded example_network_def]
    builders_graph_ok
     [where path_exists = "\<lambda>p. p = ''/srv/app/affils_yeshiva_cs_20_25.csv''"
        and dir = "''/srv/app''" and read_affils = "\<lambda>p. Inr example_affiliations"
        and read_refs = "\<lambda>p. Inr []",
      folded example_collaboration_def]
  by (simp add: example_network_value example_collaboration_value)

lemma paper_pairs_single: "length (snd row) < 2 \<Longrightarrow> paper_pairs row = []"
  by (simp add: paper_pairs_def Let_def)

lemma collaboration_pairs_single:
  "list_all (\<lambda>row. length (snd row) < 2) rows \<Longrightarrow> collaboration_pairs rows = []"
  by (induction rows) (simp_all add: collaboration_pairs_def paper_pairs_single)

text \<open>
  Claim C10. When the affiliation table is read and cleaned and no paper of the cleaned
  rows has two or more author rows, the builder returns the error shape: the list of
  pairs is empty, grouping the frame made of it raises \<open>KeyError\<close>, and the handler of
  lines 236-241 turns it into the error result with empty nodes and links.
\<close>

theorem collaboration_no_pairs_error:
  assumes "path_exists (path_join dir ''affils_yeshiva_cs_20_25.csv'')"
    and "read_csv (path_join dir ''affils_yeshiva_cs_20_25.csv'') = Inr affils_df"
    and "apply_clean_author_position (sample_papers affils_df) = Inr with_position"
    and "list_all (\<lambda>row. length (snd row) < 2) (paper_authors (clean_affiliations with_position))"
  shows "generate_collaboration_network dir path_exists read_csv
           = \<lparr>error = Some (collaboration_failed (KeyError ''source_author'')),
              nodes = [], links = []\<rparr>"
  using assms
  by (simp add: generate_collaboration_network_def collaboration_graph_def Let_def
        collaboration_pairs_single collaboration_counts_def error_result_def)

theorem collaboration_no_pairs_error_witness:
  "generate_collaboration_network ''/srv/app''
      (\<lambda>p. p = ''/srv/app/affils_yeshiva_cs_20_25.csv'') (\<lambda>p. Inr single_author_affiliations)
     = \<lparr>error = Some (collaboration_failed (KeyError ''source_author'')), nodes = [], links = []\<rparr>
   \<and> map node_id (author_nodes (clean_affiliations
        [(affiliation_row ''P1'' ''A'' ''I1'' (CInt 1), Some 1),
         (affiliation_row ''P2'' ''B'' ''I1'' (CInt 1), Some 1)])) = [''A'', ''B'']"
proof -
  have p: "path_join ''/srv/app'' ''affils_yeshiva_cs_20_25.csv''
             = ''/srv/app/affils_yeshiva_cs_20_25.csv''"
    by (simp add: path_join_def)
  have r: "(Inr single_author_affiliations :: py_exception + csv_affiliation list)
             = Inr single_author_affiliations"
    by simp
  have a: "apply_clean_author_position (sample_papers single_author_affiliations)
             = Inr [(affiliation_row ''P1'' ''A'' ''I1'' (CInt 1), Some 1),
                    (affiliation_row ''P2'' ''B'' ''I1'' (CInt 1), Some 1)]"
    by code_simp
  have l: "list_all (\<lambda>row. length (snd row) < 2)
             (paper_authors (clean_affiliations
                [(affiliation_row ''P1'' ''A'' ''I1'' (CInt 1), Some 1),
                 (affiliation_row ''P2'' ''B'' ''I1'' (CInt 1), Some 1)]))"
    by code_simp
  have n: "map node_id (author_nodes (clean_affiliations
        [(affiliation_row ''P1'' ''A'' ''I1'' (CInt 1), Some 1),
         (affiliation_row ''P2'' ''B'' ''I1'' (CInt 1), Some 1)])) = [''A'', ''B'']"
    by code_simp
  from collaboration_no_pairs_error
     [where path_exists = "\<lambda>p. p = ''/srv/app/affils_yeshiva_cs_20_25.csv''"
        and dir = "''/srv/app''" and read_csv = "\<lambda>p. Inr single_author_affiliations",
      OF p r a l] n
  show ?thesis by simp
qed

lemma combinations2_members:
  "(a, b) \<in> set (combinations2 xs) \<Longrightarrow> a \<in> set xs \<and> b \<in> set xs"
  by (induction xs) auto

lemma set_combinations2_sorted:
  "sorted xs \<Longrightarrow> distinct xs \<Longrightarrow>
     set (combinations2 xs) = {(a, b). a \<in> set xs \<and> b \<in> set xs \<and> a < b}"
proof (induction xs)
  case Nil
  then show ?case by simp
next
  case (Cons x xs)
  then have lt: "\<forall>y \<in> set xs. x < y" by (auto simp: less_le)
  have ih: "set (combinations2 xs) = {(a, b). a \<in> set xs \<and> b \<in> set xs \<and> a < b}"
    using Cons by simp
  show ?case
    using lt by (auto simp: ih)
qed

lemma distinct_combinations2: "distinct xs \<Longrightarrow> distinct (combinations2 xs)"
proof (induction xs)
  case Nil
  then show ?case by simp
next
  case (Cons x xs)
  have "distinct (map (Pair x) xs)"
    using Cons.prems by (simp add: distinct_map inj_on_def)
  moreover have "set (map (Pair x) xs) \<inter> set (combinations2 xs) = {}"
    using Cons.prems combinations2_members[of _ _ xs] by auto
  ultimately show ?case using Cons by simp
qed

lemma count_list_concat: "count_list (concat xss) k = sum_list (map (\<lambda>xs. count_list xs k) xss)"
  by (induction xss) simp_all

lemma count_list_distinct: "distinct ys \<Longrightarrow> count_list ys k = (if k \<in> set ys then 1 else 0)"
  by (induction ys) auto

lemma sum_list_indicator: "sum_list (map (\<lambda>x. if P x then 1 else 0) xs) = length (filter P xs)"
  by (induction xs) simp_all

lemma pair_keys_eq:
  "pair_keys row = (if 2 \<le> length (snd row) then combinations2 (sort (snd row)) else [])"
  by (simp add: pair_keys_def paper_pairs_def Let_def comp_def)

lemma pair_keys_member:
  assumes "distinct (snd row)"
  shows "(a, b) \<in> set (pair_keys row) \<longleftrightarrow> a \<in> set (snd row) \<and> b \<in> set (snd row) \<and> a < b"
proof -
  have s: "set (combinations2 (sort (snd row)))
             = {(a, b). a \<in> set (snd row) \<and> b \<in> set (snd row) \<and> a < b}"
    using set_combinations2_sorted[of "sort (snd row)"] assms by simp
  have "2 \<le> length (snd row)" if "a \<in> set (snd row)" "b \<in> set (snd row)" "a < b"
  proof -
    from that have "{a, b} \<subseteq> set (snd row)" "a \<noteq> b" by auto
    then have "card {a, b} \<le> card (set (snd row))" by (intro card_mono) auto
    with \<open>a \<noteq> b\<close> have "2 \<le> card (set (snd row))" by simp
    then show ?thesis using card_length[of "snd row"] by linarith
  qed
  then show ?thesis by (auto simp: pair_keys_eq s)
qed

lemma distinct_pair_keys: "distinct (snd row) \<Longrightarrow> distinct (pair_keys row)"
  by (simp add: pair_keys_eq distinct_combinations2)

lemma keys_collaboration_pairs:
  "map (\<lambda>p. (source_author p, target_author p)) (collaboration_pairs rows)
     = concat (map pair_keys rows)"
  by (simp add: collaboration_pairs_def map_concat comp_def pair_keys_def[abs_def])

lemma count_collaboration_pairs:
  assumes "\<forall>row \<in> set rows. distinct (snd row)"
  shows "count_list (map (\<lambda>p. (source_author p, target_author p)) (collaboration_pairs rows)) (a, b)
           = length (filter (\<lambda>row. a \<in> set (snd row) \<and> b \<in> set (snd row) \<and> a < b) rows)"
proof -
  have h: "map (\<lambda>row. count_list (pair_keys row) (a, b)) rows
          = map (\<lambda>row. if a \<in> set (snd row) \<and> b \<in> set (snd row) \<and> a < b then 1 else 0) rows"
    using assms by (intro map_cong) (auto simp: count_list_distinct distinct_pair_keys pair_keys_member)
  have "count_list (concat (map pair_keys rows)) (a, b)
          = sum_list (map (\<lambda>row. count_list (pair_keys row) (a, b)) rows)"
    by (simp add: count_list_concat comp_def)
  also have "\<dots> = sum_list (map (\<lambda>row. if a \<in> set (snd row) \<and> b \<in> set (snd row) \<and> a < b
                                       then 1 else 0) rows)"
    by (simp only: h)
  also have "\<dots> = length (filter (\<lambda>row. a \<in> set (snd row) \<and> b \<in> set (snd row) \<and> a < b) rows)"
    by (rule sum_list_indicator)
  finally show ?thesis
    by (simp only: keys_collaboration_pairs)
qed

lemma paper_authors_filter:
  "length (filter (\<lambda>row. P (snd row)) (paper_authors df))
     = card {p \<in> paperid ` set df. P (map authorid (filter (\<lambda>r. paperid r = p) df))}"
proof -
  let ?ps = "sort (remdups (map paperid df))"
  let ?au = "\<lambda>p. map authorid (filter (\<lambda>r. paperid r = p) df)"
  have "filter (\<lambda>row. P (snd row)) (paper_authors df)
          = map (\<lambda>p. (p, ?au p)) (filter (\<lambda>p. P (?au p)) ?ps)"
    by (simp add: paper_authors_def filter_map comp_def)
  then have len: "length (filter (\<lambda>row. P (snd row)) (paper_authors df))
          = length (filter (\<lambda>p. P (?au p)) ?ps)" by simp
  have dc: "card (set (filter (\<lambda>p. P (?au p)) ?ps)) = length (filter (\<lambda>p. P (?au p)) ?ps)"
    by (rule distinct_card) simp
  have st: "set (filter (\<lambda>p. P (?au p)) ?ps) = {p \<in> paperid ` set df. P (?au p)}"
    by auto
  from len dc st show ?thesis by (simp only:)
qed

text \<open>
  The edges of a cleaned frame in which no author has two rows on one paper: every edge
  has its smaller endpoint first, and its value is the number of papers that list both
  authors.
\<close>

lemma collaboration_links_without_repeated_rows:
  assumes d: "\<And>p. distinct (map authorid (filter (\<lambda>r. paperid r = p) df))"
    and c: "collaboration_counts (collaboration_pairs (paper_authors df)) = Inr counts"
    and l: "l \<in> set (collaboration_links node_ids counts)"
  shows "source l < target l \<and> co_authored_papers l = link_value l
    \<and> link_value l
        = int (card {p \<in> paperid ` set df.
                       source l \<in> authorid ` {r \<in> set df. paperid r = p}
                     \<and> target l \<in> authorid ` {r \<in> set df. paperid r = p}})"
proof -
  let ?rows = "paper_authors df"
  let ?keys = "map (\<lambda>p. (source_author p, target_author p)) (collaboration_pairs ?rows)"
  have dr: "\<forall>row \<in> set ?rows. distinct (snd row)"
    using d by (auto simp: paper_authors_def)
  from c have counts: "counts = groupby_size ?keys"
    by (auto simp: collaboration_counts_def split: if_splits)
  from l obtain a b n where m: "((a, b), n) \<in> set counts"
    and l': "source l = a" "target l = b" "link_value l = int n" "co_authored_papers l = int n"
    by (auto simp: collaboration_links_def)
  from m have k: "(a, b) \<in> set ?keys" and n: "n = count_list ?keys (a, b)"
    by (auto simp: counts groupby_size_def)
  from k obtain row where row: "row \<in> set ?rows" "(a, b) \<in> set (pair_keys row)"
    by (auto simp: keys_collaboration_pairs)
  with dr have lt: "a < b" by (simp add: pair_keys_member)
  have "n = length (filter (\<lambda>row. a \<in> set (snd row) \<and> b \<in> set (snd row)) ?rows)"
    using count_collaboration_pairs[OF dr, of a b] lt by (simp add: n)
  also have "\<dots> = card {p \<in> paperid ` set df.
                       a \<in> set (map authorid (filter (\<lambda>r. paperid r = p) df))
                     \<and> b \<in> set (map authorid (filter (\<lambda>r. paperid r = p) df))}"
    by (rule paper_authors_filter[of "\<lambda>au. a \<in> set au \<and> b \<in> set au"])
  finally have "n = card {p \<in> paperid ` set df.
                       a \<in> authorid ` {r \<in> set df. paperid r = p}
                     \<and> b \<in> authorid ` {r \<in> set df. paperid r = p}}"
    by simp
  with lt l' show ?thesis by simp
qed

text \<open>
  Claim C1. Every collaboration edge is stated to join two different authors, the
  smaller id first, and to count the distinct papers the two share. The edges are built
  from the author column of the rows of a paper, which lists an author once per row: an
  author with two rows on a paper (one per institution) is paired with itself, and every
  pair it forms with a co-author is counted once per row. On one paper by \<open>A\<close> (two
  institutions) and \<open>B\<close> the builder emits the edge \<open>A\<close>-\<open>A\<close> and the edge \<open>A\<close>-\<open>B\<close>
  with value 2.
\<close>

theorem collaboration_repeated_author_rows:
  "generate_collaboration_network ''/srv/app''
      (\<lambda>p. p = ''/srv/app/affils_yeshiva_cs_20_25.csv'') (\<lambda>p. Inr two_institution_affiliations)
     = \<lparr>error = None,
        nodes =
          [\<lparr>node_id = ''A'', name = ''Author_A'',
             department = ''Yeshiva University, Computer Science Department'',
             papers_published = 1, first_author_papers = 1, corr_author_papers = 0, h_index = 1\<rparr>,
           \<lparr>node_id = ''B'', name = ''Author_B'',
             department = ''Yeshiva University, Computer Science Department'',
             papers_published = 1, first_author_papers = 0, corr_author_papers = 0, h_index = 1\<rparr>],
        links =
          [\<lparr>source = ''A'', target = ''A'', link_value = 1, co_authored_papers = 1\<rparr>,
           \<lparr>source = ''A'', target = ''B'', link_value = 2, co_authored_papers = 2\<rparr>]\<rparr>"
  by code_simp

section \<open>Properties of the sampling cap\<close>












section \<open>Properties of convert_numpy_types\<close>



lemma convert_plain: "is_plain obj \<Longrightarrow> convert_numpy_types obj = obj"
  by (induction obj rule: convert_numpy_types.induct)
    (auto simp: list_all_iff map_idI)

lemma convert_numpy_types_other_scalar:
  "convert_numpy_types (PyList [NpScalar ''np.bool_(True)'']) = PyList [NpScalar ''np.bool_(True)'']"
  by simp




lemma is_plain_encode_publish_year: "is_plain (encode_publish_year y)"
  by (cases y) simp_all

lemma is_plain_encode_result:
  assumes "\<And>n. is_plain (encode_node n)" and "\<And>l. is_plain (encode_link l)"
  shows "is_plain (encode_result encode_node encode_link r)"
  using assms by (simp add: encode_result_def list_all_iff split: option.splits)

lemma convert_builder_results:
  "convert_numpy_types (encode_result encode_paper_node encode_citation_link r1)
     = encode_result encode_paper_node encode_citation_link r1"
  "convert_numpy_types (encode_result encode_enhanced_node encode_citation_link r2)
     = encode_result encode_enhanced_node encode_citation_link r2"
  "convert_numpy_types (encode_result encode_author_node encode_collaboration_link r3)
     = encode_result encode_author_node encode_collaboration_link r3"
  by (rule convert_plain, rule is_plain_encode_result;
      simp add: encode_paper_node_def encode_enhanced_node_def encode_citation_link_def
        encode_author_node_def encode_collaboration_link_def is_plain_encode_publish_year)+

end
